theory Spec2Isabelle
  imports Complex_Main "HOL-Library.Word" "HOL-Library.Multiset"
begin

unbundle bit_operations_syntax

section \<open>Machine types\<close>

text \<open>
  The program is modelled as built for an LP64 platform: \<open>size_t\<close> is an unsigned
  64-bit integer whose arithmetic wraps around. zlib's \<open>uInt\<close> (the type of
  \<open>avail_in\<close> and \<open>avail_out\<close> in \<open>z_stream\<close>) is an unsigned 32-bit integer.
  The C++ \<open>int\<close> fields of the configuration are modelled by \<open>int\<close>: the only
  arithmetic the program does on them are comparisons and the shifts of
  \<open>calc_stats\<close>.
\<close>

type_synonym size_t = "64 word"
type_synonym uInt = "32 word"

section \<open>Frame overhead\<close>

text \<open>
  \<^verbatim>\<open>size_t frame_overhead(bool masked, size_t payload_size)\<close>
\<close>

definition frame_overhead :: "bool \<Rightarrow> size_t \<Rightarrow> size_t" where
  "frame_overhead masked payload_size =
     (let size = (if masked then 4 else 0) in
      if payload_size \<le> 125 then size + 2
      else if payload_size \<le> 0xffff then size + 4
      else size + 8)"

section \<open>Doubles\<close>

text \<open>
  The two ratios are computed as \<^verbatim>\<open>double(a) / double(b)\<close> from unsigned sizes. IEEE
  division by zero does not trap: it yields a NaN for \<open>0/0\<close> and an infinity
  otherwise, so the quotient is a value of its own type. Rounding is not modelled.
  Elapsed times are finite durations and are modelled by \<open>real\<close>.
\<close>

datatype double = Finite real | PosInf | NaN

definition double_div :: "size_t \<Rightarrow> size_t \<Rightarrow> double" where
  "double_div a b =
     (if b = 0 then (if a = 0 then NaN else PosInf)
      else Finite (real (unat a) / real (unat b)))"

section \<open>Records of the program\<close>

text \<open>
  \<^verbatim>\<open>struct line_result\<close>. The field \<^verbatim>\<open>frame_overhead\<close> is named
  \<open>frame_overhead_fld\<close> here, since the function of that name is a constant already.
\<close>

record line_result =
  payload_size :: size_t
  frame_overhead_fld :: size_t
  frame_overhead_compressed :: size_t
  compressed_size :: size_t
  ratio :: double
  elapsed_seconds :: real

text \<open>\<^verbatim>\<open>struct test_result\<close>: the error flag, the six settings, the records and the aggregates.\<close>

record test_result =
  error :: bool
  is_server :: bool
  sending :: bool
  context_takeover :: bool
  speed_level :: int
  window_bits :: int
  memory_level :: int
  line_results :: "line_result list"
  total_payload :: size_t
  total_frame_overhead :: size_t
  total_frame_overhead_compressed :: size_t
  total_compressed_size :: size_t
  total_ratio :: double
  total_elapsed_seconds :: real
  mem_usage :: size_t
  mem_usage_inflate_32 :: size_t
  mem_usage_inflate_64 :: size_t

text \<open>
  What the program writes to standard output, one value per message. The report of
  \<^verbatim>\<open>print_stats\<close> is represented by the \<open>test_result\<close> whose fields it formats.
\<close>

datatype message =
  Msg_speed_level | Msg_window_bits | Msg_memory_level
  | Msg_fatal_setup | Msg_fatal_memory | Msg_exited | Msg_help
  | Msg_stats test_result

section \<open>Reading a setting\<close>

text \<open>
  \<^verbatim>\<open>std::string::find(char)\<close>: the index of the first occurrence, or \<open>None\<close> for
  \<^verbatim>\<open>npos\<close>.
\<close>

fun find_char :: "char \<Rightarrow> string \<Rightarrow> nat option" where
  "find_char c [] = None"
| "find_char c (x # xs) =
     (if x = c then Some 0 else map_option Suc (find_char c xs))"

text \<open>
  \<^verbatim>\<open>atoi\<close> of the C library, as the C standard describes it: leading white space is
  skipped, an optional sign is read, then decimal digits up to the first character that
  is not a digit; no digits give 0. A value outside the range of \<^verbatim>\<open>int\<close> is undefined
  behaviour in C and is not modelled.
\<close>

definition isspace :: "char \<Rightarrow> bool" where
  "isspace c = (c \<in> set [CHR '' '', CHR 0x09, CHR 0x0A, CHR 0x0B, CHR 0x0C, CHR 0x0D])"

definition isdigit :: "char \<Rightarrow> bool" where
  "isdigit c = (48 \<le> (of_char c :: nat) \<and> (of_char c :: nat) \<le> 57)"

fun digits_value :: "int \<Rightarrow> string \<Rightarrow> int" where
  "digits_value acc [] = acc"
| "digits_value acc (c # cs) =
     (if isdigit c then digits_value (acc * 10 + (int (of_char c) - 48)) cs else acc)"

definition atoi :: "string \<Rightarrow> int" where
  "atoi s =
     (case dropWhile isspace s of
        [] \<Rightarrow> 0
      | c # cs \<Rightarrow>
          if c = CHR ''-'' then - digits_value 0 cs
          else if c = CHR ''+'' then digits_value 0 cs
          else digits_value 0 (c # cs))"

text \<open>\<^verbatim>\<open>void test_result::load_setting(std::string arg)\<close>\<close>

definition load_setting :: "string \<Rightarrow> test_result \<Rightarrow> test_result" where
  "load_setting arg r =
     (case find_char CHR ''='' arg of
        None \<Rightarrow> r
      | Some pos \<Rightarrow>
          (let key = take pos arg; val = drop (pos + 1) arg in
           if key = ''server'' then r\<lparr>is_server := (if val = ''true'' then True else False)\<rparr>
           else if key = ''sending'' then r\<lparr>sending := (if val = ''true'' then True else False)\<rparr>
           else if key = ''context_takeover'' then
             r\<lparr>context_takeover := (if val = ''true'' then True else False)\<rparr>
           else if key = ''speed_levels'' then r\<lparr>speed_level := atoi val\<rparr>
           else if key = ''window_bits'' then r\<lparr>window_bits := atoi val\<rparr>
           else if key = ''memory_level'' then r\<lparr>memory_level := atoi val\<rparr>
           else r))"

section \<open>Validation\<close>

text \<open>
  \<^verbatim>\<open>bool test_result::check_validity()\<close>: the three range checks, each of which prints
  its message and sets the error flag; the call returns \<^verbatim>\<open>!error\<close>. The model returns
  that value, the updated object and the messages printed.
\<close>

definition check_validity :: "test_result \<Rightarrow> bool \<times> test_result \<times> message list" where
  "check_validity r =
     (let (r1, o1) =
            (if speed_level r > 9 \<or> speed_level r < 0
             then (r\<lparr>error := True\<rparr>, [Msg_speed_level]) else (r, []));
          (r2, o2) =
            (if window_bits r1 > 15 \<or> window_bits r1 < 8
             then (r1\<lparr>error := True\<rparr>, o1 @ [Msg_window_bits]) else (r1, o1));
          (r3, o3) =
            (if memory_level r2 > 9 \<or> memory_level r2 < 1
             then (r2\<lparr>error := True\<rparr>, o2 @ [Msg_memory_level]) else (r2, o2))
      in (\<not> error r3, r3, o3))"

section \<open>Aggregate statistics\<close>

text \<open>
  \<^verbatim>\<open>1 << n\<close> on a C++ \<^verbatim>\<open>int\<close>. The shift is defined in C++ for \<open>0 \<le> n < 31\<close> only;
  \<^verbatim>\<open>calc_stats\<close> is reached after \<^verbatim>\<open>check_validity\<close> has passed, where
  \<open>n \<le> 18\<close>.
\<close>

definition shl1 :: "int \<Rightarrow> int" where
  "shl1 n = push_bit (nat n) 1"

text \<open>\<^verbatim>\<open>sizeof(int)\<close> on the platform modelled.\<close>

definition sizeof_int :: size_t where
  "sizeof_int = 4"

text \<open>The body of the range-for loop of \<^verbatim>\<open>calc_stats\<close>, for one record.\<close>

definition accumulate :: "line_result \<Rightarrow> test_result \<Rightarrow> test_result" where
  "accumulate lr r =
     r\<lparr>total_payload := total_payload r + payload_size lr,
       total_frame_overhead := total_frame_overhead r + frame_overhead_fld lr,
       total_frame_overhead_compressed :=
         total_frame_overhead_compressed r + frame_overhead_compressed lr,
       total_compressed_size := total_compressed_size r + compressed_size lr,
       total_elapsed_seconds := total_elapsed_seconds r + elapsed_seconds lr\<rparr>"

text \<open>
  \<^verbatim>\<open>void test_result::calc_stats()\<close>. The four size totals and the ratio are set to
  zero before the loop; \<^verbatim>\<open>total_elapsed_seconds\<close> is not assigned before the loop.
  The \<^verbatim>\<open>int\<close> results of the memory formulas are converted to \<^verbatim>\<open>size_t\<close>; in the
  receiving branch the factor \<^verbatim>\<open>sizeof(int)\<close> makes the sum a \<^verbatim>\<open>size_t\<close> sum.
\<close>

definition calc_stats :: "test_result \<Rightarrow> test_result" where
  "calc_stats r =
     (let r1 = r\<lparr>total_payload := 0, total_frame_overhead := 0,
                 total_frame_overhead_compressed := 0, total_compressed_size := 0,
                 total_ratio := Finite 0\<rparr>;
          r2 = fold accumulate (line_results r1) r1;
          r3 = r2\<lparr>total_ratio := double_div (total_compressed_size r2) (total_payload r2)\<rparr>
      in if sending r3 then
           r3\<lparr>mem_usage := word_of_int (shl1 (window_bits r3 + 2) + shl1 (memory_level r3 + 9)),
              mem_usage_inflate_32 := word_of_int (shl1 (window_bits r3) + 1440 * 2 * 4),
              mem_usage_inflate_64 := word_of_int (shl1 (window_bits r3) + 1440 * 2 * 8)\<rparr>
         else
           r3\<lparr>mem_usage := word_of_int (shl1 (window_bits r3)) + word_of_int (1440 * 2) * sizeof_int,
              mem_usage_inflate_32 := 0,
              mem_usage_inflate_64 := 0\<rparr>)"

text \<open>
  \<^verbatim>\<open>void test_result::print_stats()\<close> prints the settings, calls \<^verbatim>\<open>calc_stats\<close> and
  prints the report from the aggregates.
\<close>

definition print_stats :: "test_result \<Rightarrow> message list" where
  "print_stats r = [Msg_stats (calc_stats r)]"

section \<open>The output buffer\<close>

text \<open>
  \<^verbatim>\<open>class pod_buffer\<close>: a cursor and a capacity. The bytes of the buffer are written
  by the compressor and never read by the program, so they are not part of the model.
\<close>

record pod_buffer =
  m_cursor :: size_t
  m_capacity :: size_t

definition pod_buffer_new :: pod_buffer where
  "pod_buffer_new = \<lparr>m_cursor = 0, m_capacity = 0\<rparr>"

definition resize :: "size_t \<Rightarrow> pod_buffer \<Rightarrow> pod_buffer" where
  "resize new_size b = (if new_size \<le> m_capacity b then b else b\<lparr>m_capacity := new_size\<rparr>)"

definition avail :: "pod_buffer \<Rightarrow> size_t" where
  "avail b = m_capacity b - m_cursor b"

definition cursor :: "pod_buffer \<Rightarrow> size_t" where
  "cursor b = m_cursor b"

definition set_cursor :: "size_t \<Rightarrow> pod_buffer \<Rightarrow> pod_buffer" where
  "set_cursor c b = b\<lparr>m_cursor := c\<rparr>"

definition adv_cursor :: "size_t \<Rightarrow> pod_buffer \<Rightarrow> pod_buffer" where
  "adv_cursor c b = b\<lparr>m_cursor := m_cursor b + c\<rparr>"

section \<open>The compression library and the clock\<close>

text \<open>Constants of \<^verbatim>\<open>zlib.h\<close>.\<close>

definition Z_OK :: int where "Z_OK = 0"
definition Z_SYNC_FLUSH :: int where "Z_SYNC_FLUSH = 2"
definition Z_FULL_FLUSH :: int where "Z_FULL_FLUSH = 3"
definition Z_DEFLATED :: int where "Z_DEFLATED = 8"
definition Z_DEFAULT_STRATEGY :: int where "Z_DEFAULT_STRATEGY = 0"

text \<open>
  zlib and the clock are outside the program and are parameters of the model. \<open>'z\<close> is
  the state behind a \<^verbatim>\<open>z_stream\<close>.
  \<^item> \<open>deflateInit2 level method windowBits memLevel strategy\<close> gives the return code
    and the state.
  \<^item> \<open>deflateBound z sourceLen\<close> gives the estimate.
  \<^item> \<open>deflate z input avail_out flush\<close> is given the \<^verbatim>\<open>avail_in\<close> bytes at
    \<^verbatim>\<open>next_in\<close> and the room \<^verbatim>\<open>avail_out\<close>; it gives the new state and the room
    left. Its return code is ignored by the program.
  \<^item> \<open>clock_now k\<close> is the reading of the \<open>k\<close>-th call of
    \<^verbatim>\<open>high_resolution_clock::now()\<close>, in seconds.
\<close>

record 'z env =
  deflateInit2 :: "int \<Rightarrow> int \<Rightarrow> int \<Rightarrow> int \<Rightarrow> int \<Rightarrow> int \<times> 'z"
  deflateBound :: "'z \<Rightarrow> size_t \<Rightarrow> size_t"
  deflate :: "'z \<Rightarrow> string \<Rightarrow> uInt \<Rightarrow> int \<Rightarrow> 'z \<times> uInt"
  clock_now :: "nat \<Rightarrow> real"

text \<open>
  The calls into zlib that concern the life of a compression context, in the order in
  which a run makes them. \<open>Call_deflateInit2\<close> carries the return code.
\<close>

datatype zcall = Call_deflateInit2 int | Call_deflateBound | Call_deflate | Call_deflateEnd

text \<open>
  Whether a context is allocated after a sequence of calls: a successful
  \<^verbatim>\<open>deflateInit2\<close> allocates it, \<^verbatim>\<open>deflateEnd\<close> releases it.
\<close>

fun allocated_after :: "bool \<Rightarrow> zcall list \<Rightarrow> bool" where
  "allocated_after a [] = a"
| "allocated_after a (Call_deflateInit2 ret # cs) = allocated_after (ret = Z_OK) cs"
| "allocated_after a (Call_deflateEnd # cs) = allocated_after False cs"
| "allocated_after a (c # cs) = allocated_after a cs"

section \<open>The compression session\<close>

text \<open>
  The variables of \<^verbatim>\<open>deflate_test\<close> that live across the iterations of its loop: the
  result \<^verbatim>\<open>r\<close>, the zlib state, the output buffer; and, to observe the run, the zlib
  calls made, the number of clock readings taken and the messages printed.
\<close>

record 'z session =
  result :: test_result
  zlib_state :: 'z
  out_buf :: pod_buffer
  zcalls :: "zcall list"
  now_calls :: nat
  stdout :: "message list"

datatype 'a step = Continue 'a | Return 'a

definition push_back :: "line_result \<Rightarrow> test_result \<Rightarrow> test_result" where
  "push_back lr r = r\<lparr>line_results := line_results r @ [lr]\<rparr>"

text \<open>
  The compression of one non-empty line, from the assignment of \<^verbatim>\<open>avail_in\<close> to the
  advance of the buffer's cursor: the estimate, the resize, the two clock readings
  around the one call of \<^verbatim>\<open>deflate\<close>. The value is the session after it and the
  elapsed time. The assignments to \<^verbatim>\<open>avail_in\<close> and \<^verbatim>\<open>avail_out\<close> convert a
  \<^verbatim>\<open>size_t\<close> to zlib's 32-bit \<^verbatim>\<open>uInt\<close>.
\<close>

definition compress :: "'z env \<Rightarrow> int \<Rightarrow> string \<Rightarrow> 'z session \<Rightarrow> 'z session \<times> real" where
  "compress E flush line s =
     (let avail_in = (of_nat (length line) :: uInt);
          next_in = take (unat avail_in) line;
          est_size = deflateBound E (zlib_state s) (of_nat (length line));
          ob1 = set_cursor 0 (resize est_size (out_buf s));
          avail_out = (ucast (avail ob1) :: uInt);
          start = clock_now E (now_calls s);
          (z', avail_out') = deflate E (zlib_state s) next_in avail_out flush;
          finish = clock_now E (now_calls s + 1);
          ob2 = adv_cursor (avail ob1 - ucast avail_out') ob1
      in (s\<lparr>zlib_state := z', out_buf := ob2,
            zcalls := zcalls s @ [Call_deflateBound, Call_deflate],
            now_calls := now_calls s + 2\<rparr>,
          finish - start))"

text \<open>
  One iteration of the \<^verbatim>\<open>while (std::getline(input, line))\<close> loop. \<open>lr0\<close> is the
  content of the local \<^verbatim>\<open>line_result lr\<close> at its declaration: the struct has no
  initialisers, so its fields hold indeterminate values until they are assigned.
  \<open>Continue\<close> is the end of the loop body (and the \<^verbatim>\<open>continue\<close> of the empty line),
  \<open>Return\<close> is the \<^verbatim>\<open>return r\<close> of the fatal error.
\<close>

definition process_line ::
  "'z env \<Rightarrow> int \<Rightarrow> line_result \<Rightarrow> string \<Rightarrow> 'z session \<Rightarrow> 'z session step" where
  "process_line E flush lr0 line s =
     (let lr1 = lr0\<lparr>payload_size := of_nat (length line)\<rparr>;
          lr2 = lr1\<lparr>frame_overhead_fld :=
                  frame_overhead (\<not> is_server (result s)) (of_nat (length line))\<rparr>
      in if line = [] then
           (let lr3 = lr2\<lparr>compressed_size := 2\<rparr>;
                lr4 = lr3\<lparr>ratio := Finite 2\<rparr>
            in Continue (s\<lparr>result := push_back lr4 (result s)\<rparr>))
         else
           (let (s1, elapsed) = compress E flush line s;
                lr3 = lr2\<lparr>elapsed_seconds := elapsed\<rparr>
            in if avail (out_buf s1) = 0 then
                 Return (s1\<lparr>result := (result s1)\<lparr>error := True\<rparr>,
                            stdout := stdout s1 @ [Msg_fatal_memory]\<rparr>)
               else
                 (let lr4 = lr3\<lparr>compressed_size := cursor (out_buf s1) - 4\<rparr>;
                      lr5 = lr4\<lparr>frame_overhead_compressed :=
                              frame_overhead (\<not> is_server (result s1)) (compressed_size lr4)\<rparr>;
                      lr6 = lr5\<lparr>ratio := double_div (compressed_size lr5) (payload_size lr5)\<rparr>
                  in Continue (s1\<lparr>result := push_back lr6 (result s1)\<rparr>))))"

text \<open>
  The loop over the lines that \<^verbatim>\<open>std::getline\<close> yields. \<open>ind i\<close> is the indeterminate
  content of \<^verbatim>\<open>lr\<close> in the \<open>i\<close>-th iteration from here. \<open>Continue\<close> is the end of the
  input, \<open>Return\<close> the \<^verbatim>\<open>return\<close> inside the loop.
\<close>

fun getline_loop ::
  "'z env \<Rightarrow> int \<Rightarrow> (nat \<Rightarrow> line_result) \<Rightarrow> string list \<Rightarrow> 'z session
     \<Rightarrow> 'z session step" where
  "getline_loop E flush ind [] s = Continue s"
| "getline_loop E flush ind (line # rest) s =
     (case process_line E flush (ind 0) line s of
        Return s' \<Rightarrow> Return s'
      | Continue s' \<Rightarrow> getline_loop E flush (\<lambda>i. ind (Suc i)) rest s')"

text \<open>What a run of \<^verbatim>\<open>deflate_test\<close> gives: the returned result and what was observed.\<close>

record run =
  returned :: test_result
  calls :: "zcall list"
  printed :: "message list"

definition run_of :: "'z session \<Rightarrow> run" where
  "run_of s = \<lparr>returned = result s, calls = zcalls s, printed = stdout s\<rparr>"

text \<open>\<^verbatim>\<open>int flush = (r.context_takeover ? Z_SYNC_FLUSH : Z_FULL_FLUSH)\<close>\<close>

definition flush_mode :: "test_result \<Rightarrow> int" where
  "flush_mode r = (if context_takeover r then Z_SYNC_FLUSH else Z_FULL_FLUSH)"

text \<open>
  The part of \<^verbatim>\<open>deflate_test\<close> before its loop: validation and the creation of the
  compression context. \<open>Inl\<close> is one of the two early \<^verbatim>\<open>return r\<close>, \<open>Inr\<close> the
  session with which the loop starts.
\<close>

definition start_session :: "'z env \<Rightarrow> test_result \<Rightarrow> run + 'z session" where
  "start_session E r =
     (let (ok, r1, o1) = check_validity r in
      if \<not> ok then Inl \<lparr>returned = r1, calls = [], printed = o1\<rparr>
      else
        (let (ret, z) = deflateInit2 E (speed_level r1) Z_DEFLATED (- 1 * window_bits r1)
                          (memory_level r1) Z_DEFAULT_STRATEGY
         in if ret \<noteq> Z_OK then
              Inl \<lparr>returned = r1\<lparr>error := True\<rparr>, calls = [Call_deflateInit2 ret],
                   printed = o1 @ [Msg_fatal_setup]\<rparr>
            else
              Inr \<lparr>result = r1, zlib_state = z, out_buf = pod_buffer_new,
                   zcalls = [Call_deflateInit2 ret], now_calls = 0, stdout = o1\<rparr>))"

text \<open>
  \<^verbatim>\<open>test_result deflate_test(std::istream & input, test_result r)\<close>. The input is the
  list of lines that \<^verbatim>\<open>std::getline\<close> reads from the stream. The function returns
  from two places before the loop, from one inside it and from one after it, and has no
  call of \<^verbatim>\<open>deflateEnd\<close>.
\<close>

definition deflate_test ::
  "'z env \<Rightarrow> (nat \<Rightarrow> line_result) \<Rightarrow> string list \<Rightarrow> test_result \<Rightarrow> run" where
  "deflate_test E ind input r =
     (case start_session E r of
        Inl t \<Rightarrow> t
      | Inr s0 \<Rightarrow>
          (case getline_loop E (flush_mode (result s0)) ind input s0 of
             Return s \<Rightarrow> run_of s
           | Continue s \<Rightarrow> run_of s))"

section \<open>The program\<close>

text \<open>
  The argument loop of \<^verbatim>\<open>main\<close>: \<open>None\<close> when \<^verbatim>\<open>--help\<close> or \<^verbatim>\<open>-h\<close> is met, where
  \<^verbatim>\<open>main\<close> prints the help and returns 0.
\<close>

fun load_args :: "string list \<Rightarrow> test_result \<Rightarrow> test_result option" where
  "load_args [] r = Some r"
| "load_args (arg # args) r =
     (if arg = ''--help'' \<or> arg = ''-h'' then None else load_args args (load_setting arg r))"

text \<open>
  The content of \<^verbatim>\<open>test_result r\<close> after its declaration and the six assignments at
  the start of \<^verbatim>\<open>main\<close>. \<open>r0\<close> is what the memory of \<^verbatim>\<open>r\<close> holds before: the error
  flag and the six settings have default member initialisers and the vector is empty;
  the aggregates have no initialiser and are indeterminate.
\<close>

definition declared :: "test_result \<Rightarrow> test_result" where
  "declared r0 =
     r0\<lparr>error := False, is_server := True, sending := True, context_takeover := True,
        speed_level := 6, window_bits := 15, memory_level := 8, line_results := []\<rparr>"

text \<open>
  \<^verbatim>\<open>int main(int argc, char * argv[])\<close>. \<open>args\<close> is \<^verbatim>\<open>argv[1]\<close> to
  \<^verbatim>\<open>argv[argc-1]\<close>. The value is the exit status and the output.
\<close>

definition main ::
  "'z env \<Rightarrow> test_result \<Rightarrow> (nat \<Rightarrow> line_result) \<Rightarrow> string list \<Rightarrow> string list
     \<Rightarrow> int \<times> message list" where
  "main E r0 ind args input =
     (case load_args args (declared r0) of
        None \<Rightarrow> (0, [Msg_help])
      | Some r \<Rightarrow>
          (let t = deflate_test E ind input r in
           if error (returned t) then (1, printed t @ [Msg_exited])
           else (0, printed t @ print_stats (returned t))))"

section \<open>Concrete values for the examples\<close>

text \<open>
  A stand-in for zlib and the clock, for evaluating the program on concrete inputs. Its
  compressor accepts the documented parameter ranges and stores its input: a message
  of \<open>n\<close> bytes takes \<open>n + 10\<close> bytes of output (a stored block and the empty block
  of the flush), as much of it as fits in the room given. Its state is the number of
  bytes of history it keeps, which a full flush resets. The clock advances by one
  millisecond per reading.
\<close>

definition Z_STREAM_ERROR :: int where "Z_STREAM_ERROR = - 2"

definition stored_deflate :: "nat \<Rightarrow> string \<Rightarrow> uInt \<Rightarrow> int \<Rightarrow> nat \<times> uInt" where
  "stored_deflate z input avail_out flush =
     (let produced = min (length input + 10) (unat avail_out)
      in (if flush = Z_FULL_FLUSH then 0 else z + length input,
          avail_out - of_nat produced))"

definition stored_env :: "nat env" where
  "stored_env =
     \<lparr>deflateInit2 = (\<lambda>level method windowBits memLevel strategy.
         if 0 \<le> level \<and> level \<le> 9 \<and> method = Z_DEFLATED \<and> - 15 \<le> windowBits
            \<and> windowBits \<le> - 8 \<and> 1 \<le> memLevel \<and> memLevel \<le> 9
         then (Z_OK, 0) else (Z_STREAM_ERROR, 0)),
      deflateBound = (\<lambda>z sourceLen. sourceLen + 16),
      deflate = stored_deflate,
      clock_now = (\<lambda>k. real k / 1000)\<rparr>"

text \<open>A line record and a result whose fields are all zero, and the settings of \<^verbatim>\<open>main\<close>.\<close>

definition zero_line :: line_result where
  "zero_line = \<lparr>payload_size = 0, frame_overhead_fld = 0, frame_overhead_compressed = 0,
                 compressed_size = 0, ratio = Finite 0, elapsed_seconds = 0\<rparr>"

definition default_result :: test_result where
  "default_result =
     \<lparr>error = False, is_server = True, sending = True, context_takeover = True,
      speed_level = 6, window_bits = 15, memory_level = 8, line_results = [],
      total_payload = 0, total_frame_overhead = 0, total_frame_overhead_compressed = 0,
      total_compressed_size = 0, total_ratio = Finite 0, total_elapsed_seconds = 0,
      mem_usage = 0, mem_usage_inflate_32 = 0, mem_usage_inflate_64 = 0\<rparr>"

text \<open>A result with one record, of 10 bytes compressed to 5 in one second.\<close>

definition one_record :: test_result where
  "one_record =
     default_result\<lparr>line_results :=
       [zero_line\<lparr>payload_size := 10, compressed_size := 5, elapsed_seconds := 1\<rparr>]\<rparr>"

section \<open>Auxiliary definitions for the properties\<close>

text \<open>The session with which a loop or an iteration ends, however it ends.\<close>

fun session_of :: "'a step \<Rightarrow> 'a" where
  "session_of (Continue s) = s"
| "session_of (Return s) = s"

text \<open>
  The record that an iteration appends for a non-empty line, from the content \<open>lr0\<close>
  of \<^verbatim>\<open>lr\<close> at its declaration, the compressed size and the elapsed time: all six
  fields are assigned.
\<close>

definition compressed_record :: "bool \<Rightarrow> line_result \<Rightarrow> string \<Rightarrow> size_t \<Rightarrow> real \<Rightarrow> line_result" where
  "compressed_record srv lr0 line csz el =
     lr0\<lparr>payload_size := of_nat (length line),
         frame_overhead_fld := frame_overhead (\<not> srv) (of_nat (length line)),
         elapsed_seconds := el,
         compressed_size := csz,
         frame_overhead_compressed := frame_overhead (\<not> srv) csz,
         ratio := double_div csz (of_nat (length line))\<rparr>"

text \<open>The configuration of a client that receives.\<close>

definition client_receiving :: test_result where
  "client_receiving = default_result\<lparr>is_server := False, sending := False\<rparr>"

text \<open>
  The lines \<open>pre\<close> are processed to their end from the session \<open>s0\<close>, and the
  compression of \<open>line\<close>, which comes next, leaves no room in the output buffer: the
  condition \<^verbatim>\<open>out_buf.avail() == 0\<close> of the loop.
\<close>

definition exhausted_at ::
  "'z env \<Rightarrow> int \<Rightarrow> (nat \<Rightarrow> line_result) \<Rightarrow> 'z session \<Rightarrow> string list \<Rightarrow> string \<Rightarrow> bool" where
  "exhausted_at E flush ind s0 pre line =
     (case getline_loop E flush ind pre s0 of
        Return s \<Rightarrow> False
      | Continue s \<Rightarrow> line \<noteq> [] \<and> avail (out_buf (fst (compress E flush line s))) = 0)"

text \<open>
  A second stand-in, whose estimate is 3 bytes short of what its compressor writes.
\<close>

definition tight_env :: "nat env" where
  "tight_env = stored_env\<lparr>deflateBound := (\<lambda>z sourceLen. sourceLen + 7)\<rparr>"

text \<open>
  What a run without context takeover relies on from zlib, after the description of
  \<^verbatim>\<open>Z_FULL_FLUSH\<close> in \<^verbatim>\<open>zlib.h\<close> (all output is flushed and the compression state is
  reset). It is relative to the parameters of the run \<open>r\<close>: \<open>fresh\<close> holds of the
  context that \<^verbatim>\<open>deflateInit2\<close> creates with the speed level, window bits and memory
  level of \<open>r\<close>, as \<^verbatim>\<open>deflate_test\<close> calls it; and \<^verbatim>\<open>deflate\<close> with
  \<^verbatim>\<open>Z_FULL_FLUSH\<close> on a fresh context never increases the room, and when it leaves
  room it has written \<open>produced input\<close> bytes, a number that for these parameters
  depends on the input bytes only, and the context is fresh again.
\<close>

definition full_flush_contract ::
  "'z env \<Rightarrow> test_result \<Rightarrow> ('z \<Rightarrow> bool) \<Rightarrow> (string \<Rightarrow> uInt) \<Rightarrow> bool" where
  "full_flush_contract E r fresh produced \<longleftrightarrow>
     (\<forall>z. deflateInit2 E (speed_level r) Z_DEFLATED (- 1 * window_bits r) (memory_level r)
            Z_DEFAULT_STRATEGY = (Z_OK, z) \<longrightarrow> fresh z) \<and>
     (\<forall>z input avail_out z' avail_out'.
        fresh z \<and> deflate E z input avail_out Z_FULL_FLUSH = (z', avail_out') \<longrightarrow>
          avail_out' \<le> avail_out \<and>
          (avail_out' \<noteq> 0 \<longrightarrow> fresh z' \<and> avail_out - avail_out' = produced input))"

text \<open>
  The compressed size that a run without context takeover records for a line: 2 for
  the empty line, and else the bytes written for the \<^verbatim>\<open>avail_in\<close> bytes of the line,
  less the 4 bytes of the trailer, in \<^verbatim>\<open>size_t\<close> arithmetic.
\<close>

definition recorded_size :: "(string \<Rightarrow> uInt) \<Rightarrow> string \<Rightarrow> size_t" where
  "recorded_size produced line =
     (if line = [] then 2
      else ucast (produced (take (unat (of_nat (length line) :: uInt)) line)) - 4)"

text \<open>The default configuration without context takeover, and a line of 4 GiB.\<close>

definition no_takeover :: test_result where
  "no_takeover = default_result\<lparr>context_takeover := False\<rparr>"

definition huge_line :: string where
  "huge_line = replicate (2 ^ 32) CHR ''a''"

section \<open>Properties of the frame overhead model\<close>

lemma size_t_gt_125: "\<not> (p::size_t) \<le> 125 \<longleftrightarrow> 126 \<le> p"
  by (simp add: word_le_nat_alt) arith

lemma size_t_gt_65535: "\<not> (p::size_t) \<le> 0xffff \<longleftrightarrow> 65536 \<le> p"
  by (simp add: word_le_nat_alt) arith

text \<open>
  Claim C10. For every payload size \<open>p\<close>, the unmasked frame overhead is 2 when
  \<open>p \<le> 125\<close>, 4 when \<open>126 \<le> p \<le> 65535\<close> and 8 when \<open>p \<ge> 65536\<close>; the masked
  frame overhead is the unmasked one plus 4.
\<close>

theorem frame_overhead_cases:
  "(p \<le> 125 \<longrightarrow> frame_overhead False p = 2) \<and>
   (126 \<le> p \<and> p \<le> 65535 \<longrightarrow> frame_overhead False p = 4) \<and>
   (65536 \<le> p \<longrightarrow> frame_overhead False p = 8) \<and>
   frame_overhead True p = frame_overhead False p + 4"
proof -
  have a: "p \<le> 125 \<Longrightarrow> frame_overhead False p = 2"
    by (simp add: frame_overhead_def)
  have b: "126 \<le> p \<Longrightarrow> p \<le> 65535 \<Longrightarrow> frame_overhead False p = 4"
    using size_t_gt_125 [of p] by (simp add: frame_overhead_def)
  have c: "65536 \<le> p \<Longrightarrow> frame_overhead False p = 8"
  proof -
    assume h: "65536 \<le> p"
    then have "\<not> p \<le> 0xffff" using size_t_gt_65535 [of p] by simp
    moreover from h have "\<not> p \<le> 125"
      by (simp add: word_le_nat_alt)
    ultimately show ?thesis by (simp add: frame_overhead_def)
  qed
  have d: "frame_overhead True p = frame_overhead False p + 4"
    by (simp add: frame_overhead_def)
  from a b c d show ?thesis by blast
qed

theorem frame_overhead_cases_witness:
  "(125::size_t) \<le> 125 \<and> frame_overhead False 125 = 2 \<and>
   (126::size_t) \<le> 65535 \<and> (65535::size_t) \<le> 65535 \<and> frame_overhead False 65535 = 4 \<and>
   (65536::size_t) \<le> 65536 \<and> frame_overhead False 65536 = 8 \<and>
   frame_overhead True 126 = 8"
  using frame_overhead_cases [of 125] frame_overhead_cases [of 65535]
    frame_overhead_cases [of 65536] frame_overhead_cases [of 126]
  by simp

section \<open>Properties of the aggregator\<close>

lemma fold_acc_keep: "sending (fold accumulate xs r) = sending r \<and> window_bits (fold accumulate xs r) = window_bits r \<and> memory_level (fold accumulate xs r) = memory_level r \<and> line_results (fold accumulate xs r) = line_results r"
  by (induction xs arbitrary: r) (simp_all add: accumulate_def)

lemma shl1_pow: "shl1 n = 2 ^ nat n"
  by (simp add: shl1_def push_bit_eq_mult)

lemma calc_stats_mem_usage:
  "mem_usage (calc_stats r) =
     (if sending r then word_of_int (shl1 (window_bits r + 2) + shl1 (memory_level r + 9))
      else word_of_int (shl1 (window_bits r)) + word_of_int (1440 * 2) * sizeof_int)"
  by (simp add: calc_stats_def Let_def fold_acc_keep)

lemma calc_stats_mem_usage_inflate_32:
  "mem_usage_inflate_32 (calc_stats r) =
     (if sending r then word_of_int (shl1 (window_bits r) + 1440 * 2 * 4) else 0)"
  by (simp add: calc_stats_def Let_def fold_acc_keep)

lemma calc_stats_mem_usage_inflate_64:
  "mem_usage_inflate_64 (calc_stats r) =
     (if sending r then word_of_int (shl1 (window_bits r) + 1440 * 2 * 8) else 0)"
  by (simp add: calc_stats_def Let_def fold_acc_keep)

lemma unat_size_t_small: "n < 2 ^ 64 \<Longrightarrow> unat (word_of_int (int n) :: size_t) = n"
  by (simp add: unat_of_nat)

lemma pow2_le: "(a::nat) \<le> b \<Longrightarrow> (2::nat) ^ a \<le> 2 ^ b"
  by simp

text \<open>
  Claim C7. For a validated configuration, \<^verbatim>\<open>calc_stats\<close> derives exactly these
  memory estimates: when sending, the compression-side usage is
  \<open>(1 << (window_bits+2)) + (1 << (memory_level+9))\<close> and the peer's decompression
  needs \<open>(1 << window_bits) + 1440*2*4\<close> bytes on 32-bit and
  \<open>(1 << window_bits) + 1440*2*8\<close> bytes on 64-bit systems; when receiving, the single
  estimate is \<open>(1 << window_bits) + 1440*2*sizeof(int)\<close> and both peer-side figures
  are zero. For \<open>window_bits = 15\<close> and \<open>memory_level = 8\<close> the compression-side
  usage is 262144 bytes.
\<close>

theorem calc_stats_memory:
  assumes "8 \<le> window_bits r" "window_bits r \<le> 15" "1 \<le> memory_level r" "memory_level r \<le> 9"
  shows "(sending r \<longrightarrow>
            unat (mem_usage (calc_stats r)) = 2 ^ nat (window_bits r + 2) + 2 ^ nat (memory_level r + 9) \<and>
            unat (mem_usage_inflate_32 (calc_stats r)) = 2 ^ nat (window_bits r) + 1440 * 2 * 4 \<and>
            unat (mem_usage_inflate_64 (calc_stats r)) = 2 ^ nat (window_bits r) + 1440 * 2 * 8) \<and>
         (\<not> sending r \<longrightarrow>
            unat (mem_usage (calc_stats r)) = 2 ^ nat (window_bits r) + 1440 * 2 * unat sizeof_int \<and>
            mem_usage_inflate_32 (calc_stats r) = 0 \<and>
            mem_usage_inflate_64 (calc_stats r) = 0)"
proof -
  define w where "w = nat (window_bits r)"
  define m where "m = nat (memory_level r)"
  have w: "w \<le> 15" and m: "m \<le> 9" using assms by (simp_all add: w_def m_def)
  have wi: "window_bits r = int w" and mi: "memory_level r = int m"
    using assms by (simp_all add: w_def m_def)
  have pw: "(2::nat) ^ w \<le> 2 ^ 15" using w by (rule pow2_le)
  have pw2: "(2::nat) ^ (w + 2) \<le> 2 ^ 17" using w by (intro pow2_le) simp
  have pm: "(2::nat) ^ (m + 9) \<le> 2 ^ 18" using m by (intro pow2_le) simp
  have s1: "shl1 (int w + 2) + shl1 (int m + 9) = int (2 ^ (w + 2) + 2 ^ (m + 9))"
    by (simp add: shl1_pow nat_add_distrib)
  have s2: "shl1 (int w) + 1440 * 2 * 4 = int (2 ^ w + 1440 * 2 * 4)"
    by (simp add: shl1_pow)
  have s3: "shl1 (int w) + 1440 * 2 * 8 = int (2 ^ w + 1440 * 2 * 8)"
    by (simp add: shl1_pow)
  have s4: "(word_of_int (shl1 (int w)) :: size_t) + word_of_int (1440 * 2) * sizeof_int
        = word_of_int (int (2 ^ w + 1440 * 2 * 4))"
    by (simp add: shl1_pow sizeof_int_def)
  have a: "unat (word_of_int (int (2 ^ (w + 2) + 2 ^ (m + 9))) :: size_t) = 2 ^ (w + 2) + 2 ^ (m + 9)"
    using pw2 pm by (intro unat_size_t_small) simp
  have b: "unat (word_of_int (int (2 ^ w + 1440 * 2 * 4)) :: size_t) = 2 ^ w + 1440 * 2 * 4"
    using pw by (intro unat_size_t_small) simp
  have c: "unat (word_of_int (int (2 ^ w + 1440 * 2 * 8)) :: size_t) = 2 ^ w + 1440 * 2 * 8"
    using pw by (intro unat_size_t_small) simp
  have n1: "nat (int w + 2) = w + 2" and n2: "nat (int m + 9) = m + 9" by simp_all
  have u: "unat sizeof_int = 4" by (simp add: sizeof_int_def)
  have A: "sending r \<Longrightarrow> unat (mem_usage (calc_stats r)) = 2 ^ nat (window_bits r + 2) + 2 ^ nat (memory_level r + 9)"
    unfolding calc_stats_mem_usage wi mi n1 n2 using a s1 by simp
  have B: "sending r \<Longrightarrow> unat (mem_usage_inflate_32 (calc_stats r)) = 2 ^ nat (window_bits r) + 1440 * 2 * 4"
    unfolding calc_stats_mem_usage_inflate_32 wi using b s2 by simp
  have C: "sending r \<Longrightarrow> unat (mem_usage_inflate_64 (calc_stats r)) = 2 ^ nat (window_bits r) + 1440 * 2 * 8"
    unfolding calc_stats_mem_usage_inflate_64 wi using c s3 by simp
  have D: "\<not> sending r \<Longrightarrow> unat (mem_usage (calc_stats r)) = 2 ^ nat (window_bits r) + 1440 * 2 * unat sizeof_int"
    unfolding calc_stats_mem_usage wi u using b s4 by simp
  have E: "\<not> sending r \<Longrightarrow> mem_usage_inflate_32 (calc_stats r) = 0 \<and> mem_usage_inflate_64 (calc_stats r) = 0"
    by (simp add: calc_stats_mem_usage_inflate_32 calc_stats_mem_usage_inflate_64)
  from A B C D E show ?thesis by blast
qed

theorem calc_stats_memory_witness:
  "unat (mem_usage (calc_stats default_result)) = 262144 \<and>
   unat (mem_usage_inflate_32 (calc_stats default_result)) = 44288 \<and>
   unat (mem_usage_inflate_64 (calc_stats default_result)) = 55808 \<and>
   unat (mem_usage (calc_stats (default_result\<lparr>sending := False\<rparr>))) = 44288 \<and>
   mem_usage_inflate_32 (calc_stats (default_result\<lparr>sending := False\<rparr>)) = 0 \<and>
   mem_usage_inflate_64 (calc_stats (default_result\<lparr>sending := False\<rparr>)) = 0"
  using calc_stats_memory [of default_result]
    calc_stats_memory [of "default_result\<lparr>sending := False\<rparr>"]
  by (simp add: default_result_def sizeof_int_def)

text \<open>
  Claim C2. \<^verbatim>\<open>calc_stats\<close> does not reset \<^verbatim>\<open>total_elapsed_seconds\<close>: for one record
  with an elapsed time of 1 second and a total that starts at 0, the first call gives
  the sum 1 and a second call gives 2; and with a total that holds 5 before the call,
  as the uninitialised member may, one call gives 6.
\<close>

theorem calc_stats_elapsed_twice:
  "sum_list (map elapsed_seconds (line_results (calc_stats one_record))) = 1 \<and>
   total_elapsed_seconds (calc_stats one_record) = 1 \<and>
   total_elapsed_seconds (calc_stats (calc_stats one_record)) = 2 \<and>
   total_elapsed_seconds (calc_stats (one_record\<lparr>total_elapsed_seconds := 5\<rparr>)) = 6"
  by (simp add: calc_stats_def one_record_def default_result_def zero_line_def accumulate_def Let_def)

section \<open>Properties of settings and validation\<close>

text \<open>
  Claim C3. \<^verbatim>\<open>load_setting\<close> compares the key with \<^verbatim>\<open>"speed_levels"\<close>, so the token
  \<^verbatim>\<open>speed_level=3\<close>, the key that the help text documents, leaves the whole
  configuration unchanged and the speed level at its default 6; only the key
  \<^verbatim>\<open>speed_levels\<close> sets it.
\<close>

theorem load_setting_speed_level_ignored:
  "load_setting ''speed_level=3'' default_result = default_result \<and>
   speed_level (load_setting ''speed_level=3'' default_result) = 6 \<and>
   speed_level (load_setting ''speed_levels=3'' default_result) = 3"
  by (simp add: load_setting_def default_result_def atoi_def isspace_def isdigit_def)

lemma check_validity_ok:
  "fst (check_validity r) \<longleftrightarrow>
     \<not> error r \<and> 0 \<le> speed_level r \<and> speed_level r \<le> 9 \<and> 8 \<le> window_bits r \<and>
     window_bits r \<le> 15 \<and> 1 \<le> memory_level r \<and> memory_level r \<le> 9"
  by (auto simp: check_validity_def Let_def split: prod.splits if_splits)

lemma check_validity_result: "check_validity r = (ok, r', out) \<Longrightarrow> r' = r\<lparr>error := \<not> ok\<rparr>"
  by (auto simp: check_validity_def Let_def split: prod.splits if_splits)

lemma deflate_test_invalid:
  "\<not> fst (check_validity r) \<Longrightarrow>
     deflate_test E ind input r =
       \<lparr>returned = r\<lparr>error := True\<rparr>, calls = [], printed = snd (snd (check_validity r))\<rparr>"
  apply (cases "check_validity r")
  apply (frule check_validity_result)
  apply (simp add: deflate_test_def start_session_def)
  done

text \<open>
  Claim C8. Validation accepts exactly \<open>speed_level\<close> in \<open>[0,9]\<close>, \<open>window_bits\<close> in
  \<open>[8,15]\<close> and \<open>memory_level\<close> in \<open>[1,9]\<close> (for a result whose error flag is
  clear, as its initialiser leaves it); when a value is out of range the run returns in
  the error state, having made no call into zlib and appended no record.
\<close>

theorem validation_ranges:
  "(fst (check_validity r) \<longleftrightarrow>
      \<not> error r \<and> 0 \<le> speed_level r \<and> speed_level r \<le> 9 \<and> 8 \<le> window_bits r \<and>
      window_bits r \<le> 15 \<and> 1 \<le> memory_level r \<and> memory_level r \<le> 9) \<and>
   (\<not> (0 \<le> speed_level r \<and> speed_level r \<le> 9 \<and> 8 \<le> window_bits r \<and>
        window_bits r \<le> 15 \<and> 1 \<le> memory_level r \<and> memory_level r \<le> 9) \<longrightarrow>
      error (returned (deflate_test E ind input r)) \<and>
      calls (deflate_test E ind input r) = [] \<and>
      line_results (returned (deflate_test E ind input r)) = line_results r)"
proof -
  have "\<not> (0 \<le> speed_level r \<and> speed_level r \<le> 9 \<and> 8 \<le> window_bits r \<and>
        window_bits r \<le> 15 \<and> 1 \<le> memory_level r \<and> memory_level r \<le> 9)
      \<Longrightarrow> \<not> fst (check_validity r)"
    by (simp only: check_validity_ok) blast
  then show ?thesis
    using check_validity_ok [of r] deflate_test_invalid [of r E ind input] by auto
qed

lemma default_result_fields:
  "error default_result = False" "is_server default_result = True"
  "sending default_result = True" "context_takeover default_result = True"
  "speed_level default_result = 6" "window_bits default_result = 15"
  "memory_level default_result = 8" "line_results default_result = []"
  by (simp_all add: default_result_def)

theorem validation_ranges_witness:
  "fst (check_validity (default_result\<lparr>speed_level := 0, window_bits := 8, memory_level := 1\<rparr>)) \<and>
   fst (check_validity (default_result\<lparr>speed_level := 9, window_bits := 15, memory_level := 9\<rparr>)) \<and>
   \<not> fst (check_validity (default_result\<lparr>speed_level := - 1\<rparr>)) \<and>
   \<not> fst (check_validity (default_result\<lparr>speed_level := 10\<rparr>)) \<and>
   \<not> fst (check_validity (default_result\<lparr>window_bits := 7\<rparr>)) \<and>
   \<not> fst (check_validity (default_result\<lparr>window_bits := 16\<rparr>)) \<and>
   \<not> fst (check_validity (default_result\<lparr>memory_level := 0\<rparr>)) \<and>
   \<not> fst (check_validity (default_result\<lparr>memory_level := 10\<rparr>)) \<and>
   error (returned (deflate_test stored_env (\<lambda>i. zero_line) [''abc'']
     (default_result\<lparr>window_bits := 16\<rparr>))) \<and>
   calls (deflate_test stored_env (\<lambda>i. zero_line) [''abc'']
     (default_result\<lparr>window_bits := 16\<rparr>)) = [] \<and>
   line_results (returned (deflate_test stored_env (\<lambda>i. zero_line) [''abc'']
     (default_result\<lparr>window_bits := 16\<rparr>))) = []"
proof -
  note v = validation_ranges [where E = stored_env and ind = "\<lambda>i. zero_line" and input = "[''abc'']"]
  show ?thesis
    using v [of "default_result\<lparr>speed_level := 0, window_bits := 8, memory_level := 1\<rparr>"]
      v [of "default_result\<lparr>speed_level := 9, window_bits := 15, memory_level := 9\<rparr>"]
      v [of "default_result\<lparr>speed_level := - 1\<rparr>"]
      v [of "default_result\<lparr>speed_level := 10\<rparr>"]
      v [of "default_result\<lparr>window_bits := 7\<rparr>"]
      v [of "default_result\<lparr>window_bits := 16\<rparr>"]
      v [of "default_result\<lparr>memory_level := 0\<rparr>"]
      v [of "default_result\<lparr>memory_level := 10\<rparr>"]
    by (simp add: default_result_fields)
qed


section \<open>Properties of the compression session\<close>

lemma compress_keeps:
  "result (fst (compress E f line s)) = result s"
  "stdout (fst (compress E f line s)) = stdout s"
  "zcalls (fst (compress E f line s)) = zcalls s @ [Call_deflateBound, Call_deflate]"
  by (simp_all add: compress_def Let_def split: prod.splits)

lemma process_line_empty:
  "process_line E f lr0 [] s =
     Continue (s\<lparr>result := push_back
        (lr0\<lparr>payload_size := 0,
             frame_overhead_fld := frame_overhead (\<not> is_server (result s)) 0,
             compressed_size := 2, ratio := Finite 2\<rparr>) (result s)\<rparr>)"
  by (simp add: process_line_def)

lemma process_line_nonempty:
  "line \<noteq> [] \<Longrightarrow>
   process_line E f lr0 line s =
     (let s1 = fst (compress E f line s) in
      if avail (out_buf s1) = 0 then
        Return (s1\<lparr>result := (result s)\<lparr>error := True\<rparr>, stdout := stdout s @ [Msg_fatal_memory]\<rparr>)
      else
        Continue (s1\<lparr>result := push_back
          (compressed_record (is_server (result s)) lr0 line (cursor (out_buf s1) - 4)
             (snd (compress E f line s))) (result s)\<rparr>))"
  by (simp add: process_line_def Let_def compress_keeps compressed_record_def split: prod.splits)
     (metis compress_keeps(1,2) fst_conv)

lemma deflate_test_session:
  "start_session E r = Inr s0 \<Longrightarrow>
   deflate_test E ind input r = run_of (session_of (getline_loop E (flush_mode (result s0)) ind input s0))"
  by (simp add: deflate_test_def split: step.splits)

lemma getline_loop_records:
  assumes step: "\<And>lr0 line s s'. line \<in> set lines \<Longrightarrow> I s \<Longrightarrow> process_line E f lr0 line s = Continue s' \<Longrightarrow>
            I s' \<and> (\<exists>lr. line_results (result s') = line_results (result s) @ [lr] \<and> P line lr)"
    and ret: "\<And>lr0 line s s'. line \<in> set lines \<Longrightarrow> I s \<Longrightarrow> process_line E f lr0 line s = Return s' \<Longrightarrow>
            line_results (result s') = line_results (result s)"
    and "I s"
  shows "\<exists>new. line_results (result (session_of (getline_loop E f ind lines s))) = line_results (result s) @ new \<and>
           length new \<le> length lines \<and> list_all2 P (take (length new) lines) new"
  using assms
proof (induction lines arbitrary: s ind)
  case Nil
  then show ?case by simp
next
  case (Cons line rest)
  have sub: "\<And>l. l \<in> set rest \<Longrightarrow> l \<in> set (line # rest)" by simp
  have step': "\<And>lr0 l t t'. l \<in> set rest \<Longrightarrow> I t \<Longrightarrow> process_line E f lr0 l t = Continue t' \<Longrightarrow>
            I t' \<and> (\<exists>lr. line_results (result t') = line_results (result t) @ [lr] \<and> P l lr)"
    using Cons.prems(1) sub by blast
  have ret': "\<And>lr0 l t t'. l \<in> set rest \<Longrightarrow> I t \<Longrightarrow> process_line E f lr0 l t = Return t' \<Longrightarrow>
            line_results (result t') = line_results (result t)"
    using Cons.prems(2) sub by blast
  have here: "line \<in> set (line # rest)" by simp
  show ?case
  proof (cases "process_line E f (ind 0) line s")
    case (Return s')
    have "line_results (result s') = line_results (result s)"
      using Cons.prems(2) here Cons.prems(3) Return by blast
    with Return show ?thesis by simp
  next
    case (Continue s')
    have "I s' \<and> (\<exists>lr. line_results (result s') = line_results (result s) @ [lr] \<and> P line lr)"
      using Cons.prems(1) here Cons.prems(3) Continue by blast
    then obtain lr where I': "I s'" and lr: "line_results (result s') = line_results (result s) @ [lr]" "P line lr"
      by auto
    have "\<exists>new. line_results (result (session_of (getline_loop E f (\<lambda>i. ind (Suc i)) rest s'))) = line_results (result s') @ new \<and>
           length new \<le> length rest \<and> list_all2 P (take (length new) rest) new"
      using step' ret' I' by (rule Cons.IH)
    then obtain new where new: "line_results (result (session_of (getline_loop E f (\<lambda>i. ind (Suc i)) rest s'))) = line_results (result s') @ new"
      "length new \<le> length rest" "list_all2 P (take (length new) rest) new" by blast
    show ?thesis
      apply (rule exI [of _ "lr # new"])
      using Continue new lr by simp
  qed
qed

lemma check_validity_valid: "fst (check_validity r) \<Longrightarrow> check_validity r = (True, r, [])"
  by (auto simp: check_validity_def Let_def split: prod.splits if_splits)

lemma start_session_Inl:
  "start_session E r = Inl t \<Longrightarrow>
     error (returned t) \<and> line_results (returned t) = line_results r \<and>
     (calls t = [] \<or> (\<exists>ret. ret \<noteq> Z_OK \<and> calls t = [Call_deflateInit2 ret]))"
  apply (cases "check_validity r")
  apply (frule check_validity_result)
  apply (auto simp: start_session_def Let_def split: prod.splits if_splits)
  done

lemma start_session_Inr:
  "start_session E r = Inr s0 \<Longrightarrow>
     fst (check_validity r) \<and>
     s0 = \<lparr>result = r,
           zlib_state = snd (deflateInit2 E (speed_level r) Z_DEFLATED (- 1 * window_bits r)
                          (memory_level r) Z_DEFAULT_STRATEGY),
           out_buf = pod_buffer_new, zcalls = [Call_deflateInit2 Z_OK], now_calls = 0,
           stdout = []\<rparr> \<and>
     fst (deflateInit2 E (speed_level r) Z_DEFLATED (- 1 * window_bits r)
            (memory_level r) Z_DEFAULT_STRATEGY) = Z_OK"
  apply (cases "fst (check_validity r)")
   apply (frule check_validity_valid)
   apply (auto simp: start_session_def Let_def split: prod.splits if_splits)
  done

lemma process_line_Return:
  assumes "process_line E f lr0 line s = Return s'"
  shows "line \<noteq> [] \<and> avail (out_buf (fst (compress E f line s))) = 0 \<and>
     s' = (fst (compress E f line s))\<lparr>result := (result s)\<lparr>error := True\<rparr>,
            stdout := stdout s @ [Msg_fatal_memory]\<rparr>"
proof (cases "line = []")
  case True
  with assms show ?thesis by (simp add: process_line_empty)
next
  case False
  from assms show ?thesis
    unfolding process_line_nonempty [OF False] Let_def
    using False by (auto split: if_splits)
qed

lemma process_line_Continue:
  assumes "process_line E f lr0 line s = Continue s'"
  shows "(line = [] \<and> s' = s\<lparr>result := push_back
        (lr0\<lparr>payload_size := 0,
             frame_overhead_fld := frame_overhead (\<not> is_server (result s)) 0,
             compressed_size := 2, ratio := Finite 2\<rparr>) (result s)\<rparr>) \<or>
     (line \<noteq> [] \<and> avail (out_buf (fst (compress E f line s))) \<noteq> 0 \<and>
      s' = (fst (compress E f line s))\<lparr>result := push_back
          (compressed_record (is_server (result s)) lr0 line
             (cursor (out_buf (fst (compress E f line s))) - 4)
             (snd (compress E f line s))) (result s)\<rparr>)"
proof (cases "line = []")
  case True
  with assms show ?thesis by (auto simp: process_line_empty)
next
  case False
  from assms show ?thesis
    unfolding process_line_nonempty [OF False] Let_def
    using False by (auto split: if_splits)
qed

text \<open>
  Claim C1, as amended. For every record that a run appends, the uncompressed frame
  overhead is computed at the payload size, and for every record of a non-empty line
  the compressed frame overhead is computed at the compressed size, both with the masking
  flag true exactly when the role is client (\<^verbatim>\<open>!r.is_server\<close>), whatever the direction.
\<close>

theorem frame_overheads_by_role:
  assumes "i < length (line_results (returned (deflate_test E ind input r))) - length (line_results r)"
    and "lr = line_results (returned (deflate_test E ind input r)) ! (length (line_results r) + i)"
  shows "payload_size lr = of_nat (length (input ! i)) \<and>
         frame_overhead_fld lr = frame_overhead (\<not> is_server r) (payload_size lr) \<and>
         (input ! i \<noteq> [] \<longrightarrow>
            frame_overhead_compressed lr = frame_overhead (\<not> is_server r) (compressed_size lr))"
proof (cases "start_session E r")
  case (Inl t)
  then have "deflate_test E ind input r = t" by (simp add: deflate_test_def)
  with start_session_Inl [OF Inl] assms show ?thesis by simp
next
  case (Inr s0)
  note s0 = start_session_Inr [OF Inr]
  have r0: "result s0 = r" using s0 by simp
  let ?I = "\<lambda>s::'a session. is_server (result s) = is_server r"
  let ?P = "\<lambda>line lr. payload_size lr = of_nat (length line) \<and>
     frame_overhead_fld lr = frame_overhead (\<not> is_server r) (payload_size lr) \<and>
     (line \<noteq> [] \<longrightarrow> frame_overhead_compressed lr = frame_overhead (\<not> is_server r) (compressed_size lr))"
  let ?fin = "session_of (getline_loop E (flush_mode (result s0)) ind input s0)"
  have "\<exists>new. line_results (result ?fin) = line_results (result s0) @ new \<and>
           length new \<le> length input \<and> list_all2 ?P (take (length new) input) new"
  proof (rule getline_loop_records [where I = ?I])
    show "?I s0" using r0 by simp
  next
    fix lr0 line s s'
    assume "?I s" and "process_line E (flush_mode (result s0)) lr0 line s = Return s'"
    then show "line_results (result s') = line_results (result s)"
      by (auto dest!: process_line_Return simp: compress_keeps)
  next
    fix lr0 line s s'
    assume I: "?I s" and c: "process_line E (flush_mode (result s0)) lr0 line s = Continue s'"
    from process_line_Continue [OF c] I
    show "?I s' \<and> (\<exists>lr. line_results (result s') = line_results (result s) @ [lr] \<and> ?P line lr)"
      by (auto simp: push_back_def compressed_record_def)
  qed
  then obtain new where new: "line_results (result ?fin) = line_results r @ new"
    "length new \<le> length input" "list_all2 ?P (take (length new) input) new"
    using r0 by auto
  have dt: "line_results (returned (deflate_test E ind input r)) = line_results r @ new"
    using new(1) by (simp add: deflate_test_session [OF Inr] run_of_def)
  from assms dt have i: "i < length new" by simp
  from list_all2_nthD2 [OF new(3) i] i have "?P (input ! i) (new ! i)" by simp
  then show ?thesis using dt assms(2) by (simp add: nth_append)
qed

theorem frame_overheads_by_role_witness:
  "0 < length (line_results (returned (deflate_test stored_env (\<lambda>i. zero_line) [''a''] client_receiving)))
        - length (line_results client_receiving) \<and>
   payload_size (line_results (returned (deflate_test stored_env (\<lambda>i. zero_line) [''a''] client_receiving))
        ! (length (line_results client_receiving) + 0)) = 1 \<and>
   frame_overhead_fld (line_results (returned (deflate_test stored_env (\<lambda>i. zero_line) [''a''] client_receiving))
        ! (length (line_results client_receiving) + 0)) = 6 \<and>
   frame_overhead_compressed (line_results (returned (deflate_test stored_env (\<lambda>i. zero_line) [''a''] client_receiving))
        ! (length (line_results client_receiving) + 0)) = 6"
proof -
  let ?t = "deflate_test stored_env (\<lambda>i. zero_line) [''a''] client_receiving"
  have h: "0 < length (line_results (returned ?t)) - length (line_results client_receiving)"
    by code_simp
  have c: "compressed_size (line_results (returned ?t) ! (length (line_results client_receiving) + 0)) = 7"
    by code_simp
  have s: "is_server client_receiving = False" by code_simp
  have f: "frame_overhead True 1 = 6" "frame_overhead True 7 = 6" by code_simp+
  from frame_overheads_by_role [OF h refl] h c s f show ?thesis by simp
qed

text \<open>
  Claim C1 as stated fails: for a client that receives, the claim's masking flag
  (sending and client) is false and gives an overhead of 2 bytes for a one-byte
  message, while the run records 6, the masked overhead, for both frames.
\<close>

theorem client_receiving_is_masked:
  "sending client_receiving = False \<and> is_server client_receiving = False \<and>
   frame_overhead_fld (hd (line_results (returned
      (deflate_test stored_env (\<lambda>i. zero_line) [''a''] client_receiving)))) = 6 \<and>
   frame_overhead (sending client_receiving \<and> \<not> is_server client_receiving) 1 = 2 \<and>
   frame_overhead_compressed (hd (line_results (returned
      (deflate_test stored_env (\<lambda>i. zero_line) [''a''] client_receiving)))) = 6 \<and>
   frame_overhead (sending client_receiving \<and> \<not> is_server client_receiving)
     (compressed_size (hd (line_results (returned
      (deflate_test stored_env (\<lambda>i. zero_line) [''a''] client_receiving))))) = 2"
  by code_simp

text \<open>
  Claim C5. On the path of the empty line the loop assigns \<^verbatim>\<open>payload_size\<close>,
  \<^verbatim>\<open>frame_overhead\<close>, \<^verbatim>\<open>compressed_size\<close> and \<^verbatim>\<open>ratio\<close> only:
  \<^verbatim>\<open>elapsed_seconds\<close> and \<^verbatim>\<open>frame_overhead_compressed\<close> keep whatever the
  uninitialised \<^verbatim>\<open>lr\<close> held, here 1 second and 6 bytes, and not 0. No call into
  zlib is made for the line.
\<close>

theorem empty_line_fields_unassigned:
  "line_results (returned (deflate_test stored_env
      (\<lambda>i. zero_line\<lparr>frame_overhead_compressed := 6, elapsed_seconds := 1\<rparr>) [''''] default_result)) =
     [\<lparr>payload_size = 0, frame_overhead_fld = 2, frame_overhead_compressed = 6,
       compressed_size = 2, ratio = Finite 2, elapsed_seconds = 1\<rparr>] \<and>
   calls (deflate_test stored_env
      (\<lambda>i. zero_line\<lparr>frame_overhead_compressed := 6, elapsed_seconds := 1\<rparr>) [''''] default_result) =
     [Call_deflateInit2 Z_OK]"
  by code_simp

lemma process_line_zcalls:
  "\<exists>more. zcalls (session_of (process_line E f lr0 line s)) = zcalls s @ more \<and>
          set more \<subseteq> {Call_deflateBound, Call_deflate}"
proof (cases "line = []")
  case True
  then show ?thesis by (simp add: process_line_empty)
next
  case False
  show ?thesis
    unfolding process_line_nonempty [OF False] Let_def
    by (simp add: compress_keeps)
qed

lemma getline_loop_zcalls:
  "\<exists>more. zcalls (session_of (getline_loop E f ind lines s)) = zcalls s @ more \<and>
          set more \<subseteq> {Call_deflateBound, Call_deflate}"
proof (induction lines arbitrary: s ind)
  case Nil
  show ?case by simp
next
  case (Cons line rest)
  obtain m1 where m1: "zcalls (session_of (process_line E f (ind 0) line s)) = zcalls s @ m1"
    "set m1 \<subseteq> {Call_deflateBound, Call_deflate}"
    using process_line_zcalls by blast
  show ?case
  proof (cases "process_line E f (ind 0) line s")
    case (Return s')
    with m1 show ?thesis by simp
  next
    case (Continue s')
    obtain m2 where m2: "zcalls (session_of (getline_loop E f (\<lambda>i. ind (Suc i)) rest s')) = zcalls s' @ m2"
      "set m2 \<subseteq> {Call_deflateBound, Call_deflate}"
      using Cons.IH by blast
    show ?thesis
      apply (rule exI [of _ "m1 @ m2"])
      using Continue m1 m2 by simp
  qed
qed

lemma allocated_after_quiet:
  "set cs \<subseteq> {Call_deflateBound, Call_deflate} \<Longrightarrow> allocated_after a cs = a"
  by (induction cs arbitrary: a) auto

lemma start_session_valid:
  assumes "fst (check_validity r)"
    and "fst (deflateInit2 E (speed_level r) Z_DEFLATED (- 1 * window_bits r)
            (memory_level r) Z_DEFAULT_STRATEGY) = Z_OK"
  shows "\<exists>s0. start_session E r = Inr s0"
proof -
  obtain ret z where d: "deflateInit2 E (speed_level r) Z_DEFLATED (- 1 * window_bits r)
            (memory_level r) Z_DEFAULT_STRATEGY = (ret, z)"
    by (meson surj_pair)
  with assms(2) have "ret = Z_OK" by simp
  with d check_validity_valid [OF assms(1)] show ?thesis
    by (simp add: start_session_def)
qed

text \<open>
  Claim C4, as amended. No run calls \<^verbatim>\<open>deflateEnd\<close>. A run whose validation fails
  makes no call into zlib, so no context exists; a run whose validation and context
  creation succeed returns, from inside the loop or after it, with the context still
  allocated.
\<close>

theorem context_never_released:
  "Call_deflateEnd \<notin> set (calls (deflate_test E ind input r)) \<and>
   (\<not> fst (check_validity r) \<longrightarrow> calls (deflate_test E ind input r) = []) \<and>
   (fst (check_validity r) \<and>
    fst (deflateInit2 E (speed_level r) Z_DEFLATED (- 1 * window_bits r)
           (memory_level r) Z_DEFAULT_STRATEGY) = Z_OK \<longrightarrow>
      allocated_after False (calls (deflate_test E ind input r)))"
proof -
  have a: "Call_deflateEnd \<notin> set (calls (deflate_test E ind input r))"
  proof (cases "start_session E r")
    case (Inl t)
    then have "deflate_test E ind input r = t" by (simp add: deflate_test_def)
    with start_session_Inl [OF Inl] show ?thesis by auto
  next
    case (Inr s0)
    obtain more where "zcalls (session_of (getline_loop E (flush_mode (result s0)) ind input s0)) = zcalls s0 @ more"
      "set more \<subseteq> {Call_deflateBound, Call_deflate}"
      using getline_loop_zcalls by blast
    then show ?thesis
      using start_session_Inr [OF Inr] by (auto simp: deflate_test_session [OF Inr] run_of_def)
  qed
  have b: "\<not> fst (check_validity r) \<Longrightarrow> calls (deflate_test E ind input r) = []"
    by (simp add: deflate_test_invalid)
  have c: "allocated_after False (calls (deflate_test E ind input r))"
    if v: "fst (check_validity r)"
      and ok: "fst (deflateInit2 E (speed_level r) Z_DEFLATED (- 1 * window_bits r)
           (memory_level r) Z_DEFAULT_STRATEGY) = Z_OK"
  proof -
    obtain s0 where Inr: "start_session E r = Inr s0" using start_session_valid [OF v ok] by blast
    obtain more where m: "zcalls (session_of (getline_loop E (flush_mode (result s0)) ind input s0)) = zcalls s0 @ more"
      "set more \<subseteq> {Call_deflateBound, Call_deflate}"
      using getline_loop_zcalls by blast
    have "zcalls s0 = [Call_deflateInit2 Z_OK]" using start_session_Inr [OF Inr] by simp
    with m show ?thesis
      by (simp add: deflate_test_session [OF Inr] run_of_def allocated_after_quiet)
  qed
  from a b c show ?thesis by blast
qed

theorem context_never_released_witness:
  "Call_deflateEnd \<notin> set (calls (deflate_test stored_env (\<lambda>i. zero_line) [''hello''] default_result)) \<and>
   fst (check_validity default_result) \<and>
   fst (deflateInit2 stored_env (speed_level default_result) Z_DEFLATED (- 1 * window_bits default_result)
           (memory_level default_result) Z_DEFAULT_STRATEGY) = Z_OK \<and>
   allocated_after False (calls (deflate_test stored_env (\<lambda>i. zero_line) [''hello''] default_result)) \<and>
   \<not> fst (check_validity (default_result\<lparr>window_bits := 16\<rparr>)) \<and>
   calls (deflate_test stored_env (\<lambda>i. zero_line) [''hello''] (default_result\<lparr>window_bits := 16\<rparr>)) = []"
proof -
  have v: "fst (check_validity default_result)" by code_simp
  have i: "fst (deflateInit2 stored_env (speed_level default_result) Z_DEFLATED (- 1 * window_bits default_result)
           (memory_level default_result) Z_DEFAULT_STRATEGY) = Z_OK" by code_simp
  have n: "\<not> fst (check_validity (default_result\<lparr>window_bits := 16\<rparr>))" by code_simp
  show ?thesis
    using context_never_released [of stored_env "\<lambda>i. zero_line" "[''hello'']" default_result]
      context_never_released [of stored_env "\<lambda>i. zero_line" "[''hello'']" "default_result\<lparr>window_bits := 16\<rparr>"]
      v i n by blast
qed

text \<open>
  Claim C4 as stated fails: a run that completes normally returns without error and
  with its compression context still allocated.
\<close>

theorem context_allocated_at_normal_return:
  "\<not> error (returned (deflate_test stored_env (\<lambda>i. zero_line) [''hello''] default_result)) \<and>
   calls (deflate_test stored_env (\<lambda>i. zero_line) [''hello''] default_result) =
     [Call_deflateInit2 Z_OK, Call_deflateBound, Call_deflate] \<and>
   allocated_after False (calls (deflate_test stored_env (\<lambda>i. zero_line) [''hello''] default_result))"
  by code_simp

lemma getline_loop_append:
  "getline_loop E f ind (xs @ ys) s =
     (case getline_loop E f ind xs s of
        Return s' \<Rightarrow> Return s'
      | Continue s' \<Rightarrow> getline_loop E f (\<lambda>i. ind (length xs + i)) ys s')"
  by (induction xs arbitrary: s ind) (simp_all split: step.splits)

lemma process_line_Return_iff:
  "(\<exists>s'. process_line E f lr0 line s = Return s') \<longleftrightarrow>
     line \<noteq> [] \<and> avail (out_buf (fst (compress E f line s))) = 0"
proof (cases "line = []")
  case True
  then show ?thesis by (simp add: process_line_empty)
next
  case False
  show ?thesis unfolding process_line_nonempty [OF False] Let_def using False by simp
qed

lemma getline_loop_exhausted:
  assumes "exhausted_at E f ind s0 pre line"
  obtains s s' where "getline_loop E f ind pre s0 = Continue s"
    and "getline_loop E f ind (pre @ line # post) s0 = Return s'"
    and "result s' = (result s)\<lparr>error := True\<rparr>"
    and "stdout s' = stdout s @ [Msg_fatal_memory]"
proof -
  from assms obtain s where s: "getline_loop E f ind pre s0 = Continue s"
    and x: "line \<noteq> []" "avail (out_buf (fst (compress E f line s))) = 0"
    by (auto simp: exhausted_at_def split: step.splits)
  from x obtain s' where r: "process_line E f (ind (length pre + 0)) line s = Return s'"
    using process_line_Return_iff by blast
  from process_line_Return [OF r]
  have "result s' = (result s)\<lparr>error := True\<rparr>" "stdout s' = stdout s @ [Msg_fatal_memory]"
    by simp_all
  moreover have "getline_loop E f ind (pre @ line # post) s0 = Return s'"
    using s r by (simp add: getline_loop_append)
  ultimately show thesis using s that by blast
qed

lemma getline_loop_Return:
  "getline_loop E f ind lines s0 = Return s' \<Longrightarrow>
     \<exists>pre line post. lines = pre @ line # post \<and> exhausted_at E f ind s0 pre line"
proof (induction lines arbitrary: s0 ind)
  case Nil
  then show ?case by simp
next
  case (Cons l rest)
  show ?case
  proof (cases "process_line E f (ind 0) l s0")
    case (Return t)
    then have "exhausted_at E f ind s0 [] l"
      using process_line_Return_iff [of E f "ind 0" l s0] by (simp add: exhausted_at_def)
    then show ?thesis by (metis append_Nil)
  next
    case (Continue t)
    with Cons.prems have "getline_loop E f (\<lambda>i. ind (Suc i)) rest t = Return s'" by simp
    from Cons.IH [OF this] obtain pre line post where
      p: "rest = pre @ line # post" "exhausted_at E f (\<lambda>i. ind (Suc i)) t pre line" by blast
    from p(2) Continue have "exhausted_at E f ind s0 (l # pre) line"
      by (simp add: exhausted_at_def)
    with p(1) show ?thesis by (metis append_Cons)
  qed
qed

lemma getline_loop_Continue:
  "getline_loop E f ind lines s = Continue s' \<Longrightarrow>
     error (result s') = error (result s) \<and>
     length (line_results (result s')) = length (line_results (result s)) + length lines \<and>
     stdout s' = stdout s"
proof (induction lines arbitrary: s ind)
  case Nil
  then show ?case by simp
next
  case (Cons l rest)
  from Cons.prems obtain t where t: "process_line E f (ind 0) l s = Continue t"
    and r: "getline_loop E f (\<lambda>i. ind (Suc i)) rest t = Continue s'"
    by (auto split: step.splits)
  from process_line_Continue [OF t]
  have "error (result t) = error (result s) \<and>
        length (line_results (result t)) = length (line_results (result s)) + 1 \<and>
        stdout t = stdout s"
    by (auto simp: push_back_def compress_keeps)
  with Cons.IH [OF r] show ?case by simp
qed

lemma load_setting_line_results: "line_results (load_setting arg r) = line_results r"
  by (simp add: load_setting_def Let_def split: option.splits)

lemma load_args_line_results: "load_args args r = Some r' \<Longrightarrow> line_results r' = line_results r"
  by (induction args arbitrary: r) (auto simp: load_setting_line_results split: if_splits)

lemma main_with_settings:
  "load_args args (declared r0) = Some r \<Longrightarrow>
   main E r0 ind args input =
     (if error (returned (deflate_test E ind input r))
      then (1, printed (deflate_test E ind input r) @ [Msg_exited])
      else (0, printed (deflate_test E ind input r) @ print_stats (returned (deflate_test E ind input r))))"
  by (simp add: main_def Let_def)

text \<open>
  Claim C9. For a run started from the command line with a valid configuration and a
  context that was created: if the compression of a line leaves no room in the output
  buffer, the run returns with the error flag set and with the records of the lines
  before that line only, \<^verbatim>\<open>main\<close> prints no report and exits with status 1; and if
  no line does so, \<^verbatim>\<open>main\<close> exits with status 0.
\<close>

theorem buffer_exhaustion_is_fatal:
  assumes args: "load_args args (declared r0) = Some r"
    and start: "start_session E r = Inr s0"
  shows "(input = pre @ line # post \<and> exhausted_at E (flush_mode r) ind s0 pre line \<longrightarrow>
           error (returned (deflate_test E ind input r)) \<and>
           line_results (returned (deflate_test E ind input r)) =
             line_results (returned (deflate_test E ind pre r)) \<and>
           length (line_results (returned (deflate_test E ind input r))) = length pre \<and>
           fst (main E r0 ind args input) = 1 \<and>
           (\<forall>x. Msg_stats x \<notin> set (snd (main E r0 ind args input)))) \<and>
         ((\<forall>pre line post. input = pre @ line # post \<longrightarrow>
              \<not> exhausted_at E (flush_mode r) ind s0 pre line) \<longrightarrow>
           fst (main E r0 ind args input) = 0)"
proof -
  note s0 = start_session_Inr [OF start]
  have r0: "result s0 = r" and out0: "stdout s0 = []" using s0 by simp_all
  have ne: "\<not> error r" using s0 by (simp add: check_validity_ok)
  have nil: "line_results r = []"
    using load_args_line_results [OF args] by (simp add: declared_def)
  note dt = deflate_test_session [OF start, unfolded r0]
  have A: "error (returned (deflate_test E ind input r)) \<and>
           line_results (returned (deflate_test E ind input r)) =
             line_results (returned (deflate_test E ind pre r)) \<and>
           length (line_results (returned (deflate_test E ind input r))) = length pre \<and>
           fst (main E r0 ind args input) = 1 \<and>
           (\<forall>x. Msg_stats x \<notin> set (snd (main E r0 ind args input)))"
    if inp: "input = pre @ line # post" and ex: "exhausted_at E (flush_mode r) ind s0 pre line"
  proof -
    from ex obtain s s' where s: "getline_loop E (flush_mode r) ind pre s0 = Continue s"
      and s': "getline_loop E (flush_mode r) ind (pre @ line # post) s0 = Return s'"
      and res: "result s' = (result s)\<lparr>error := True\<rparr>"
      and out: "stdout s' = stdout s @ [Msg_fatal_memory]"
      by (rule getline_loop_exhausted)
    note c = getline_loop_Continue [OF s]
    have t: "deflate_test E ind input r = run_of s'" using s' inp by (simp add: dt)
    have tp: "deflate_test E ind pre r = run_of s" using s by (simp add: dt)
    have e: "error (returned (deflate_test E ind input r))" using t res by (simp add: run_of_def)
    have p: "printed (deflate_test E ind input r) = [Msg_fatal_memory]"
      using t out c out0 by (simp add: run_of_def)
    have m: "main E r0 ind args input = (1, [Msg_fatal_memory, Msg_exited])"
      using e p by (simp add: main_with_settings [OF args])
    show ?thesis
      using e m t tp res c r0 nil by (simp add: run_of_def)
  qed
  have B: "fst (main E r0 ind args input) = 0"
    if no: "\<forall>pre line post. input = pre @ line # post \<longrightarrow>
              \<not> exhausted_at E (flush_mode r) ind s0 pre line"
  proof -
    have "\<nexists>s'. getline_loop E (flush_mode r) ind input s0 = Return s'"
      using no getline_loop_Return by blast
    then obtain s where s: "getline_loop E (flush_mode r) ind input s0 = Continue s"
      by (cases "getline_loop E (flush_mode r) ind input s0") auto
    from getline_loop_Continue [OF s] r0 ne have "\<not> error (result s)" by simp
    then have "\<not> error (returned (deflate_test E ind input r))"
      using s by (simp add: dt run_of_def)
    then show ?thesis by (simp add: main_with_settings [OF args])
  qed
  from A B show ?thesis by blast
qed

lemma singleton_split: "[x] = pre @ line # post \<longleftrightarrow> pre = [] \<and> line = x \<and> post = []"
  by (cases pre) auto

theorem buffer_exhaustion_is_fatal_witness:
  "load_args [''server=false''] (declared default_result) = Some (default_result\<lparr>is_server := False\<rparr>) \<and>
   start_session tight_env (default_result\<lparr>is_server := False\<rparr>) =
     Inr \<lparr>result = default_result\<lparr>is_server := False\<rparr>, zlib_state = 0, out_buf = pod_buffer_new,
          zcalls = [Call_deflateInit2 Z_OK], now_calls = 0, stdout = []\<rparr> \<and>
   exhausted_at tight_env (flush_mode (default_result\<lparr>is_server := False\<rparr>)) (\<lambda>i. zero_line)
     \<lparr>result = default_result\<lparr>is_server := False\<rparr>, zlib_state = 0, out_buf = pod_buffer_new,
      zcalls = [Call_deflateInit2 Z_OK], now_calls = 0, stdout = []\<rparr> [''''] ''abc'' \<and>
   error (returned (deflate_test tight_env (\<lambda>i. zero_line) ['''', ''abc'', ''d'']
      (default_result\<lparr>is_server := False\<rparr>))) \<and>
   length (line_results (returned (deflate_test tight_env (\<lambda>i. zero_line) ['''', ''abc'', ''d'']
      (default_result\<lparr>is_server := False\<rparr>)))) = 1 \<and>
   fst (main tight_env default_result (\<lambda>i. zero_line) [''server=false''] ['''', ''abc'', ''d'']) = 1 \<and>
   start_session stored_env (default_result\<lparr>is_server := False\<rparr>) =
     Inr \<lparr>result = default_result\<lparr>is_server := False\<rparr>, zlib_state = 0, out_buf = pod_buffer_new,
          zcalls = [Call_deflateInit2 Z_OK], now_calls = 0, stdout = []\<rparr> \<and>
   fst (main stored_env default_result (\<lambda>i. zero_line) [''server=false''] [''abc'']) = 0"
proof -
  let ?r = "default_result\<lparr>is_server := False\<rparr>"
  let ?s0 = "\<lparr>result = ?r, zlib_state = 0::nat, out_buf = pod_buffer_new,
          zcalls = [Call_deflateInit2 Z_OK], now_calls = 0, stdout = []\<rparr>"
  have a: "load_args [''server=false''] (declared default_result) = Some ?r" by code_simp
  have b: "start_session tight_env ?r = Inr ?s0" by code_simp
  have c: "exhausted_at tight_env (flush_mode ?r) (\<lambda>i. zero_line) ?s0 [''''] ''abc''" by code_simp
  have d: "start_session stored_env ?r = Inr ?s0" by code_simp
  have e: "\<forall>pre line post. [''abc''] = pre @ line # post \<longrightarrow>
              \<not> exhausted_at stored_env (flush_mode ?r) (\<lambda>i. zero_line) ?s0 pre line"
  proof (intro allI impI)
    fix pre line post assume "[''abc''] = pre @ line # post"
    then have "pre = []" "line = ''abc''" by (simp_all add: singleton_split)
    moreover have "\<not> exhausted_at stored_env (flush_mode ?r) (\<lambda>i. zero_line) ?s0 [] ''abc''"
      by code_simp
    ultimately show "\<not> exhausted_at stored_env (flush_mode ?r) (\<lambda>i. zero_line) ?s0 pre line" by simp
  qed
  have i: "['''', ''abc'', ''d''] = [''''] @ ''abc'' # [''d'']" by simp
  have l: "length [''''] = (1::nat)" by simp
  note T1 = buffer_exhaustion_is_fatal [OF a b, of "['''', ''abc'', ''d'']" "['''']" "''abc''" "[''d'']" "\<lambda>i. zero_line"]
  note T2 = buffer_exhaustion_is_fatal [OF a d, of "[''abc'']" "[]" "[]" "[]" "\<lambda>i. zero_line"]
  note F = T1 [THEN conjunct1, THEN mp, OF conjI [OF i c]]
  note f1 = F [THEN conjunct1]
  note f2 = F [THEN conjunct2, THEN conjunct2, THEN conjunct1, unfolded l]
  note f3 = F [THEN conjunct2, THEN conjunct2, THEN conjunct2, THEN conjunct1]
  note g = T2 [THEN conjunct2, THEN mp, OF e]
  show ?thesis by (intro conjI a b c d f1 f2 f3 g)
qed

section \<open>Runs without context takeover\<close>

lemma unat_ucast_down:
  fixes cap :: size_t
  assumes "unat cap < 2 ^ 32"
  shows "unat (ucast cap :: uInt) = unat cap"
  using assms by (simp add: unsigned_ucast_eq take_bit_nat_eq_self)

lemma unat_ucast_up: "unat (ucast (a::uInt) :: size_t) = unat a"
proof -
  have "unat a < 2 ^ 32" using unsigned_less [of a, where 'a = nat] by simp
  then have "unat a < (2::nat) ^ 64" by (rule less_le_trans) simp
  then show ?thesis by (simp add: unsigned_ucast_eq take_bit_nat_eq_self)
qed

lemma ucast_room:
  fixes cap :: size_t and a' :: uInt
  assumes "unat cap < 2 ^ 32" and "a' \<le> ucast cap"
  shows "cap - ucast a' = ucast ((ucast cap :: uInt) - a')"
proof -
  have c: "unat (ucast cap :: uInt) = unat cap"
    using assms(1) by (rule unat_ucast_down)
  have le: "unat a' \<le> unat cap"
    using assms(2) c by (simp add: word_le_nat_alt)
  have "(ucast a' :: size_t) \<le> cap"
    using le by (simp add: word_le_nat_alt unat_ucast_up)
  then have "unat (cap - ucast a') = unat cap - unat a'"
    by (simp add: unat_sub unat_ucast_up)
  moreover have "unat (ucast ((ucast cap :: uInt) - a') :: size_t) = unat cap - unat a'"
    using assms(2) c by (simp add: unat_ucast_up unat_sub)
  ultimately show ?thesis by (simp add: word_unat_eq_iff)
qed

lemma ucast_zero_iff: "(ucast (a::uInt) :: size_t) = 0 \<longleftrightarrow> a = 0"
  using unat_ucast_up [of a] by (simp add: word_unat_eq_iff [of _ "0"])

lemma compress_fields:
  fixes E :: "'z env"
  defines "cap \<equiv> \<lambda>(E::'z env) line s. m_capacity (resize (deflateBound E (zlib_state s) (of_nat (length line))) (out_buf s))"
  defines "d \<equiv> \<lambda>(E::'z env) f line s. deflate E (zlib_state s)
              (take (unat (of_nat (length line) :: uInt)) line) (ucast (cap E line s)) f"
  shows "zlib_state (fst (compress E f line s)) = fst (d E f line s)"
    and "m_capacity (out_buf (fst (compress E f line s))) = cap E line s"
    and "m_cursor (out_buf (fst (compress E f line s))) = cap E line s - ucast (snd (d E f line s))"
  by (simp_all add: cap_def d_def compress_def Let_def set_cursor_def adv_cursor_def avail_def
        resize_def split: prod.splits)

lemma resize_capacity:
  "m_capacity (resize n b) = (if n \<le> m_capacity b then m_capacity b else n)"
  by (simp add: resize_def)

lemma no_takeover_step:
  fixes E :: "'z env"
  assumes contract: "full_flush_contract E r fresh produced"
    and fresh: "fresh (zlib_state s)"
    and cap: "unat (m_capacity (out_buf s)) < 2 ^ 32"
    and bound: "unat (deflateBound E (zlib_state s) (of_nat (length line))) < 2 ^ 32"
    and room: "avail (out_buf (fst (compress E Z_FULL_FLUSH line s))) \<noteq> 0"
    and ne: "line \<noteq> []"
  shows "fresh (zlib_state (fst (compress E Z_FULL_FLUSH line s))) \<and>
         unat (m_capacity (out_buf (fst (compress E Z_FULL_FLUSH line s)))) < 2 ^ 32 \<and>
         cursor (out_buf (fst (compress E Z_FULL_FLUSH line s))) - 4 = recorded_size produced line"
proof -
  define c where "c = m_capacity (resize (deflateBound E (zlib_state s) (of_nat (length line))) (out_buf s))"
  define inp where "inp = take (unat (of_nat (length line) :: uInt)) line"
  define z' where "z' = fst (deflate E (zlib_state s) inp (ucast c) Z_FULL_FLUSH)"
  define a' where "a' = snd (deflate E (zlib_state s) inp (ucast c) Z_FULL_FLUSH)"
  let ?s1 = "fst (compress E Z_FULL_FLUSH line s)"
  have f: "zlib_state ?s1 = z'" "m_capacity (out_buf ?s1) = c" "m_cursor (out_buf ?s1) = c - ucast a'"
    by (simp_all add: compress_fields c_def inp_def z'_def a'_def)
  have c32: "unat c < 2 ^ 32"
    using cap bound by (simp add: c_def resize_capacity)
  have dfl: "deflate E (zlib_state s) inp (ucast c) Z_FULL_FLUSH = (z', a')"
    by (simp add: z'_def a'_def)
  from contract fresh dfl
  have le: "a' \<le> ucast c" and nz: "a' \<noteq> 0 \<Longrightarrow> fresh z' \<and> ucast c - a' = produced inp"
    unfolding full_flush_contract_def by blast+
  have av: "avail (out_buf ?s1) = ucast a'"
    by (simp add: avail_def f)
  with room have "a' \<noteq> 0" by (simp add: ucast_zero_iff)
  with nz have fz: "fresh z'" and pr: "ucast c - a' = produced inp" by simp_all
  have "cursor (out_buf ?s1) = ucast (produced inp)"
    using ucast_room [OF c32 le] pr by (simp add: cursor_def f)
  then have "cursor (out_buf ?s1) - 4 = recorded_size produced line"
    using ne by (simp add: recorded_size_def inp_def)
  with fz c32 f show ?thesis by simp
qed

lemma no_takeover_records:
  fixes E :: "'z env"
  assumes nt: "\<not> context_takeover r"
    and contract: "full_flush_contract E r fresh produced"
    and bound: "\<forall>line \<in> set input. \<forall>z. unat (deflateBound E z (of_nat (length line))) < 2 ^ 32"
    and i: "i < length (line_results (returned (deflate_test E ind input r))) - length (line_results r)"
  shows "compressed_size (line_results (returned (deflate_test E ind input r)) ! (length (line_results r) + i))
           = recorded_size produced (input ! i)"
proof (cases "start_session E r")
  case (Inl t)
  then have "deflate_test E ind input r = t" by (simp add: deflate_test_def)
  with start_session_Inl [OF Inl] i show ?thesis by simp
next
  case (Inr s0)
  note s0 = start_session_Inr [OF Inr]
  have r0: "result s0 = r" using s0 by simp
  have fl: "flush_mode (result s0) = Z_FULL_FLUSH" using nt r0 by (simp add: flush_mode_def)
  let ?I = "\<lambda>s::'z session. fresh (zlib_state s) \<and> unat (m_capacity (out_buf s)) < 2 ^ 32"
  let ?P = "\<lambda>line lr. compressed_size lr = recorded_size produced line"
  let ?fin = "session_of (getline_loop E Z_FULL_FLUSH ind input s0)"
  have init: "deflateInit2 E (speed_level r) Z_DEFLATED (- 1 * window_bits r) (memory_level r)
                Z_DEFAULT_STRATEGY = (Z_OK, zlib_state s0)"
    using s0 by (simp add: prod_eq_iff)
  have "\<exists>new. line_results (result ?fin) = line_results (result s0) @ new \<and>
           length new \<le> length input \<and> list_all2 ?P (take (length new) input) new"
  proof (rule getline_loop_records [where I = ?I])
    have "fresh (zlib_state s0)"
      using contract init unfolding full_flush_contract_def by simp
    moreover have "unat (m_capacity (out_buf s0)) < 2 ^ 32"
      using s0 by (simp add: pod_buffer_new_def)
    ultimately show "?I s0" by simp
  next
    fix lr0 line s s'
    assume "process_line E Z_FULL_FLUSH lr0 line s = Return s'"
    then show "line_results (result s') = line_results (result s)"
      by (auto dest!: process_line_Return simp: compress_keeps)
  next
    fix lr0 line s s'
    assume mem: "line \<in> set input" and I: "?I s"
      and c: "process_line E Z_FULL_FLUSH lr0 line s = Continue s'"
    show "?I s' \<and> (\<exists>lr. line_results (result s') = line_results (result s) @ [lr] \<and> ?P line lr)"
    proof (cases "line = []")
      case True
      with process_line_Continue [OF c] I show ?thesis
        by (auto simp: push_back_def recorded_size_def)
    next
      case False
      from process_line_Continue [OF c] False
      have room: "avail (out_buf (fst (compress E Z_FULL_FLUSH line s))) \<noteq> 0"
        and s': "s' = (fst (compress E Z_FULL_FLUSH line s))\<lparr>result := push_back
          (compressed_record (is_server (result s)) lr0 line
             (cursor (out_buf (fst (compress E Z_FULL_FLUSH line s))) - 4)
             (snd (compress E Z_FULL_FLUSH line s))) (result s)\<rparr>"
        by simp_all
      have b: "unat (deflateBound E (zlib_state s) (of_nat (length line))) < 2 ^ 32"
        using bound mem by blast
      from no_takeover_step [OF contract _ _ b room False] I
      have st: "fresh (zlib_state (fst (compress E Z_FULL_FLUSH line s)))"
        "unat (m_capacity (out_buf (fst (compress E Z_FULL_FLUSH line s)))) < 2 ^ 32"
        "cursor (out_buf (fst (compress E Z_FULL_FLUSH line s))) - 4 = recorded_size produced line"
        by simp_all
      show ?thesis
        unfolding s' using st by (simp add: push_back_def compressed_record_def)
    qed
  qed
  then obtain new where new: "line_results (result ?fin) = line_results r @ new"
    "length new \<le> length input" "list_all2 ?P (take (length new) input) new"
    using r0 by auto
  have dt: "line_results (returned (deflate_test E ind input r)) = line_results r @ new"
    using new(1) fl by (simp add: deflate_test_session [OF Inr] run_of_def)
  from i dt have il: "i < length new" by simp
  from list_all2_nthD2 [OF new(3) il] il have "?P (input ! i) (new ! i)" by simp
  then show ?thesis using dt by (simp add: nth_append)
qed

text \<open>
  What does hold without context takeover: with a zlib that keeps the contract of the
  full flush for the parameters of the run, and for lines whose output estimate is
  below \<open>2^32\<close>, the size of zlib's \<^verbatim>\<open>avail_out\<close> counter, a line that two runs over
  permuted inputs both record has the same compressed size in both.
\<close>

lemma no_takeover_sizes_independent:
  fixes E :: "'z env"
  assumes "\<not> context_takeover r"
    and "full_flush_contract E r fresh produced"
    and "\<forall>line \<in> set input. \<forall>z. unat (deflateBound E z (of_nat (length line))) < 2 ^ 32"
    and "mset input' = mset input"
    and "i < length (line_results (returned (deflate_test E ind input r))) - length (line_results r)"
    and "j < length (line_results (returned (deflate_test E ind' input' r))) - length (line_results r)"
    and "input ! i = input' ! j"
  shows "compressed_size (line_results (returned (deflate_test E ind input r)) ! (length (line_results r) + i))
       = compressed_size (line_results (returned (deflate_test E ind' input' r)) ! (length (line_results r) + j))"
proof -
  have "set input' = set input" using assms(4) by (rule mset_eq_setD)
  with assms(3) have b': "\<forall>line \<in> set input'. \<forall>z. unat (deflateBound E z (of_nat (length line))) < 2 ^ 32"
    by simp
  show ?thesis
    using no_takeover_records [OF assms(1,2,3,5)] no_takeover_records [OF assms(1,2) b' assms(6)] assms(7)
    by simp
qed

text \<open>The stand-in keeps the contract, for the parameters of every run.\<close>

lemma stored_env_contract:
  "full_flush_contract stored_env r (\<lambda>z. z = 0) (\<lambda>input. of_nat (length input + 10))"
proof -
  have init: "deflateInit2 stored_env level meth wbits mlevel strategy = (Z_OK, z) \<Longrightarrow> z = 0"
    for level meth wbits mlevel strategy z
    by (simp add: stored_env_def split: if_splits)
  have step: "a' \<le> a \<and> (a' \<noteq> 0 \<longrightarrow> z' = 0 \<and> a - a' = of_nat (length input + 10))"
    if d: "deflate stored_env z input a Z_FULL_FLUSH = (z', a')" for z input a z' a'
  proof -
    define p where "p = min (length input + 10) (unat a)"
    from d have z': "z' = 0" and a': "a' = a - of_nat p"
      by (simp_all add: stored_env_def stored_deflate_def p_def Let_def)
    have ple: "p \<le> unat a" by (simp add: p_def)
    then have up: "unat (of_nat p :: uInt) = p" by (rule le_unat_uoi)
    then have "(of_nat p :: uInt) \<le> a" using ple by (simp add: word_le_nat_alt)
    then have le: "a' \<le> a" unfolding a' by (rule word_sub_le)
    have "a - a' = of_nat (length input + 10)" if "a' \<noteq> 0"
    proof -
      have "p \<noteq> unat a" using that a' by auto
      then have "p = length input + 10" using ple by (simp add: p_def min_def split: if_splits)
      then show ?thesis by (simp add: a')
    qed
    with le z' show ?thesis by simp
  qed
  show ?thesis unfolding full_flush_contract_def using init step by blast
qed

lemma no_takeover_sizes_independent_example:
  "\<not> context_takeover no_takeover \<and>
   full_flush_contract stored_env no_takeover (\<lambda>z. z = 0) (\<lambda>input. of_nat (length input + 10)) \<and>
   mset [''c'', ''ab''] = mset [''ab'', ''c''] \<and>
   0 < length (line_results (returned (deflate_test stored_env (\<lambda>i. zero_line) [''ab'', ''c''] no_takeover)))
         - length (line_results no_takeover) \<and>
   1 < length (line_results (returned (deflate_test stored_env (\<lambda>i. zero_line) [''c'', ''ab''] no_takeover)))
         - length (line_results no_takeover) \<and>
   [''ab'', ''c''] ! 0 = [''c'', ''ab''] ! 1 \<and>
   compressed_size (line_results (returned (deflate_test stored_env (\<lambda>i. zero_line) [''ab'', ''c''] no_takeover))
         ! (length (line_results no_takeover) + 0)) =
   compressed_size (line_results (returned (deflate_test stored_env (\<lambda>i. zero_line) [''c'', ''ab''] no_takeover))
         ! (length (line_results no_takeover) + 1))"
proof -
  have a: "\<not> context_takeover no_takeover" by code_simp
  note b = stored_env_contract [of no_takeover]
  have c: "\<forall>line \<in> set [''ab'', ''c'']. \<forall>z. unat (deflateBound stored_env z (of_nat (length line))) < 2 ^ 32"
    by (simp add: stored_env_def)
  have d: "mset [''c'', ''ab''] = mset [''ab'', ''c'']" by simp
  have e: "0 < length (line_results (returned (deflate_test stored_env (\<lambda>i. zero_line) [''ab'', ''c''] no_takeover)))
         - length (line_results no_takeover)" by code_simp
  have f: "1 < length (line_results (returned (deflate_test stored_env (\<lambda>i. zero_line) [''c'', ''ab''] no_takeover)))
         - length (line_results no_takeover)" by code_simp
  have g: "[''ab'', ''c''] ! 0 = [''c'', ''ab''] ! 1" by simp
  note h = no_takeover_sizes_independent [OF a b c d e f g]
  show ?thesis by (intro conjI a b d e f g h)
qed

lemma huge_line_facts:
  "length huge_line = 2 ^ 32" "huge_line \<noteq> []"
  by (simp_all add: huge_line_def)

lemmas eval_defs = deflate_test_def start_session_def check_validity_def process_line_def compress_def
  stored_env_def stored_deflate_def flush_mode_def run_of_def push_back_def
  pod_buffer_new_def resize_def avail_def cursor_def set_cursor_def adv_cursor_def
  Z_OK_def Z_SYNC_FLUSH_def Z_FULL_FLUSH_def Z_DEFLATED_def Z_DEFAULT_STRATEGY_def Z_STREAM_ERROR_def
  default_result_def zero_line_def frame_overhead_def double_div_def Let_def no_takeover_def

text \<open>
  Claim C6. For a line of 4 GiB the independence fails: the \<^verbatim>\<open>size_t\<close> values assigned
  to \<^verbatim>\<open>avail_in\<close> and \<^verbatim>\<open>avail_out\<close> are cut to 32 bits, the buffer keeps its
  capacity for the lines that follow, and the cursor is advanced by a difference that
  is \<open>2^32\<close> too large. Without context takeover, the one-byte line is recorded with 7
  bytes when it comes first and with \<open>2^32 + 7\<close> bytes when it comes after the long
  line, in two runs over the same lines in a different order.
\<close>

theorem recorded_size_depends_on_order:
  "\<not> context_takeover no_takeover \<and>
   mset [''a'', huge_line] = mset [huge_line, ''a''] \<and>
   [huge_line, ''a''] ! 1 = [''a'', huge_line] ! 0 \<and>
   compressed_size (line_results (returned (deflate_test stored_env (\<lambda>i. zero_line)
      [huge_line, ''a''] no_takeover)) ! 1) = 2 ^ 32 + 7 \<and>
   compressed_size (line_results (returned (deflate_test stored_env (\<lambda>i. zero_line)
      [''a'', huge_line] no_takeover)) ! 0) = 7"
  by (simp add: eval_defs huge_line_facts)

end
